theory Spec2Isabelle
  imports Complex_Main
begin

section \<open>Text\<close>

text \<open>
  Text is a \<open>string\<close>: the UTF-8 bytes of the Python \<open>str\<close>. Every pattern, phrase and
  lexicon word of the program is ASCII, and the character classes below are Python's on
  the ASCII range (\<open>str.lower\<close>, \<open>str.isspace\<close>, the word characters of \<open>re\<close>); a byte
  above 127 is taken as a character without case that is neither a space nor a word
  character. On ASCII text (\<open>isascii\<close> below) the definitions are exact. On other text
  Python's classes are wider: \<open>\s\<close> and \<open>str.strip\<close> also take the Unicode spaces
  (U+00A0 and others), \<open>\w\<close> and \<open>\b\<close> take the letters and digits beyond ASCII as word
  characters, and case folding maps U+212A to \<open>k\<close> (and, in \<open>re.IGNORECASE\<close>, U+017F to
  \<open>s\<close> and U+0130, U+0131 to \<open>i\<close>).
\<close>

definition upper_letters :: string where
  "upper_letters = ''ABCDEFGHIJKLMNOPQRSTUVWXYZ''"

definition lower_letters :: string where
  "lower_letters = ''abcdefghijklmnopqrstuvwxyz''"

definition lower_char :: "char \<Rightarrow> char" where
  "lower_char c = (case map_of (zip upper_letters lower_letters) c of Some l \<Rightarrow> l | None \<Rightarrow> c)"

text \<open>\<open>str.lower()\<close>\<close>

definition lower :: "string \<Rightarrow> string" where
  "lower s = map lower_char s"




text \<open>\<open>str.isspace\<close> on one character: tab, line feed, vertical tab, form feed, carriage
  return, the four separators 0x1C..0x1F and the space.\<close>

definition is_space :: "char \<Rightarrow> bool" where
  "is_space c = List.member
     [CHR 0x09, CHR 0x0A, CHR 0x0B, CHR 0x0C, CHR 0x0D, CHR 0x1C, CHR 0x1D, CHR 0x1E, CHR 0x1F, CHR 0x20] c"

text \<open>The word characters of \<open>\w\<close> and \<open>\b\<close>: letters, digits and the underscore.\<close>

definition is_word :: "char \<Rightarrow> bool" where
  "is_word c = List.member (upper_letters @ lower_letters @ ''0123456789_'') c"

text \<open>\<open>s.startswith(p)\<close> and \<open>p in s\<close>\<close>

fun starts_with :: "string \<Rightarrow> string \<Rightarrow> bool" where
  "starts_with s [] = True"
| "starts_with [] (p # ps) = False"
| "starts_with (c # cs) (p # ps) = (c = p \<and> starts_with cs ps)"

fun contains :: "string \<Rightarrow> string \<Rightarrow> bool" where
  "contains [] p = starts_with [] p"
| "contains (c # cs) p = (starts_with (c # cs) p \<or> contains cs p)"

text \<open>\<open>str.strip()\<close>\<close>

definition strip :: "string \<Rightarrow> string" where
  "strip s = rev (dropWhile is_space (rev (dropWhile is_space s)))"


section \<open>Regular expressions (safety.py, the fragment of \<open>re\<close> the patterns use)\<close>

text \<open>
  The crisis patterns are built from literal characters (compared without case, as
  \<open>re.IGNORECASE\<close> does), \<open>\s+\<close>, \<open>\s*\<close>, \<open>.*\<close>, \<open>\b\<close>, concatenation and alternation.
  \<open>rmatch r (p, s)\<close> lists every way \<open>r\<close> can match a prefix of \<open>s\<close>, where \<open>p\<close> is the
  character before the current position (\<open>None\<close> at the start of the message): each
  result is the position after the match. A backtracking matcher finds a match exactly
  when this list is not empty.
\<close>

datatype cclass = Whitespace | AnyButNewline

datatype rx =
    Chr char
  | Star cclass
  | Plus cclass
  | WordBoundary
  | Seq rx rx
  | Alt rx rx
  | Empty

type_synonym pos = "char option \<times> string"

fun in_class :: "cclass \<Rightarrow> char \<Rightarrow> bool" where
  "in_class Whitespace c = is_space c"
| "in_class AnyButNewline c = (c \<noteq> CHR 0x0A)"

fun star_from :: "cclass \<Rightarrow> char option \<Rightarrow> string \<Rightarrow> pos list" where
  "star_from k p [] = [(p, [])]"
| "star_from k p (c # cs) = (if in_class k c then star_from k (Some c) cs else []) @ [(p, c # cs)]"

definition at_boundary :: "char option \<Rightarrow> string \<Rightarrow> bool" where
  "at_boundary p s =
     ((case p of None \<Rightarrow> False | Some c \<Rightarrow> is_word c) \<noteq> (case s of [] \<Rightarrow> False | c # _ \<Rightarrow> is_word c))"

fun rmatch :: "rx \<Rightarrow> pos \<Rightarrow> pos list" where
  "rmatch (Chr a) (p, s) =
     (case s of [] \<Rightarrow> [] | c # cs \<Rightarrow> if lower_char c = lower_char a then [(Some c, cs)] else [])"
| "rmatch (Star k) (p, s) = star_from k p s"
| "rmatch (Plus k) (p, s) =
     (case s of [] \<Rightarrow> [] | c # cs \<Rightarrow> if in_class k c then star_from k (Some c) cs else [])"
| "rmatch WordBoundary (p, s) = (if at_boundary p s then [(p, s)] else [])"
| "rmatch (Seq r1 r2) ps = concat (map (rmatch r2) (rmatch r1 ps))"
| "rmatch (Alt r1 r2) ps = rmatch r1 ps @ rmatch r2 ps"
| "rmatch Empty ps = [ps]"

text \<open>\<open>pattern.search(message) is not None\<close>: a match starting at some position.\<close>

fun search_at :: "rx \<Rightarrow> char option \<Rightarrow> string \<Rightarrow> bool" where
  "search_at r p [] = (rmatch r (p, []) \<noteq> [])"
| "search_at r p (c # cs) = (rmatch r (p, c # cs) \<noteq> [] \<or> search_at r (Some c) cs)"

definition search :: "rx \<Rightarrow> string \<Rightarrow> bool" where
  "search r s = search_at r None s"

subsection \<open>Writing the patterns\<close>

text \<open>\<open>lit w\<close> is the literal \<open>w\<close>; \<open>words [w1, w2, ..]\<close> is \<open>w1\s+w2\s+..\<close>;
  \<open>seqs\<close> and \<open>alts\<close> are concatenation and \<open>|\<close> over a list; \<open>bounded r\<close> is
  \<open>\b(?:r)\b\<close>.\<close>

definition lit :: "string \<Rightarrow> rx" where
  "lit w = foldr (\<lambda>c r. Seq (Chr c) r) w Empty"

fun seqs :: "rx list \<Rightarrow> rx" where
  "seqs [] = Empty"
| "seqs [r] = r"
| "seqs (r # rs) = Seq r (seqs rs)"

fun alts :: "rx list \<Rightarrow> rx" where
  "alts [] = Empty"
| "alts [r] = r"
| "alts (r # rs) = Alt r (alts rs)"

fun words :: "string list \<Rightarrow> rx" where
  "words [] = Empty"
| "words [w] = lit w"
| "words (w # ws) = Seq (lit w) (Seq (Plus Whitespace) (words ws))"

definition bounded :: "rx \<Rightarrow> rx" where
  "bounded r = Seq WordBoundary (Seq r WordBoundary)"


section \<open>Crisis detection (safety.py)\<close>

definition crisis_patterns :: "rx list" where
  "crisis_patterns = [
     bounded (alts [words [''kill'', ''myself''], lit ''suicide'', words [''end'', ''my'', ''life''],
                    words [''take'', ''my'', ''life''], words [''want'', ''to'', ''die'']]),
     bounded (alts [lit ''suicidal'', words [''end'', ''it'', ''all''],
                    words [''not'', ''worth'', ''living''], words [''better'', ''off'', ''dead'']]),
     bounded (alts [words [''cut'', ''myself''], words [''hurt'', ''myself''],
                    seqs [lit ''self'', Star Whitespace, lit ''harm''], lit ''cutting'',
                    words [''burning'', ''myself'']]),
     bounded (alts [lit ''razor'', lit ''blade'', words [''pills'', ''to'', ''die''], lit ''overdose'']),
     bounded (alts [words [''going'', ''to'', ''kill''], words [''planning'', ''to'', ''die''],
                    seqs [lit ''tonight'', Plus Whitespace, Star AnyButNewline, Plus Whitespace, lit ''die''],
                    words [''ready'', ''to'', ''die'']]),
     bounded (alts [lit ''gun'', lit ''rope'', lit ''bridge'', words [''jump'', ''off''],
                    seqs [lit ''pills'', Plus Whitespace, Star AnyButNewline, Plus Whitespace, lit ''die'']]),
     bounded (alts [seqs [lit ''kill'', Plus Whitespace,
                          alts [lit ''someone'', lit ''them'', lit ''him'', lit ''her'']],
                    seqs [lit ''hurt'', Plus Whitespace,
                          alts [lit ''someone'', lit ''people'', lit ''others'']]]),
     bounded (alts [words [''planning'', ''to'', ''hurt''], words [''going'', ''to'', ''hurt''],
                    seqs [words [''want'', ''to'', ''hurt''], Plus Whitespace,
                          alts [lit ''someone'', lit ''others'']]])]"

definition high_risk_phrases :: "string list" where
  "high_risk_phrases = [
     ''can't go on'', ''nothing to live for'', ''everyone would be better off without me'',
     ''final goodbye'', ''last time'', ''saying goodbye'', ''won't be here tomorrow'']"

definition crisis_combinations :: "string list list" where
  "crisis_combinations = [
     [''pain'', ''can't'', ''anymore''],
     [''tired'', ''fighting'', ''give up''],
     [''no one'', ''cares'', ''alone''],
     [''pointless'', ''life'', ''meaningless'']]"

text \<open>\<open>_contextual_crisis_check\<close>: the loop returns at the first combination all of whose
  words are in the message.\<close>

fun any_combination :: "string list list \<Rightarrow> string \<Rightarrow> bool" where
  "any_combination [] message = False"
| "any_combination (combination # rest) message =
     (if list_all (\<lambda>word. contains message word) combination then True
      else any_combination rest message)"

definition contextual_crisis_check :: "string \<Rightarrow> bool" where
  "contextual_crisis_check message = any_combination crisis_combinations message"

text \<open>
  \<open>detect_crisis\<close> is annotated \<open>message: str\<close>, which Python does not enforce, and wraps
  its body in \<open>try\<close>/\<open>except Exception\<close>. The argument is therefore a Python object:
  on anything but a \<open>str\<close> the first \<open>pattern.search(message)\<close> raises \<open>TypeError\<close>.
\<close>

datatype pyobj = PyStr string | PyNone | PyInt int

datatype py_exception = TypeError | AttributeError | IndexError | Exception string

definition pattern_search :: "rx \<Rightarrow> pyobj \<Rightarrow> py_exception + bool" where
  "pattern_search r message = (case message of PyStr s \<Rightarrow> Inr (search r s) | _ \<Rightarrow> Inl TypeError)"

fun any_pattern :: "rx list \<Rightarrow> pyobj \<Rightarrow> py_exception + bool" where
  "any_pattern [] message = Inr False"
| "any_pattern (pattern # rest) message =
     (case pattern_search pattern message of
        Inl e \<Rightarrow> Inl e
      | Inr found \<Rightarrow> if found then Inr True else any_pattern rest message)"

fun any_phrase :: "string list \<Rightarrow> string \<Rightarrow> bool" where
  "any_phrase [] message_lower = False"
| "any_phrase (phrase # rest) message_lower =
     (if contains message_lower phrase then True else any_phrase rest message_lower)"

definition message_lower :: "pyobj \<Rightarrow> py_exception + string" where
  "message_lower message = (case message of PyStr s \<Rightarrow> Inr (lower s) | _ \<Rightarrow> Inl AttributeError)"

text \<open>The body of the \<open>try\<close> block of \<open>detect_crisis\<close>.\<close>

definition detect_crisis_body :: "pyobj \<Rightarrow> py_exception + bool" where
  "detect_crisis_body message =
     (case any_pattern crisis_patterns message of
        Inl e \<Rightarrow> Inl e
      | Inr found \<Rightarrow>
          if found then Inr True
          else (case message_lower message of
                  Inl e \<Rightarrow> Inl e
                | Inr ml \<Rightarrow>
                    if any_phrase high_risk_phrases ml then Inr True
                    else if contextual_crisis_check ml then Inr True
                    else Inr False))"

text \<open>\<open>CrisisDetector.detect_crisis\<close>: \<open>except Exception: return False\<close>.\<close>

definition detect_crisis :: "pyobj \<Rightarrow> bool" where
  "detect_crisis message = (case detect_crisis_body message of Inr b \<Rightarrow> b | Inl e \<Rightarrow> False)"


text \<open>\<open>get_crisis_response\<close>: the standardized crisis response. The three pictographs of the
  source text are written as their UTF-8 bytes.\<close>

definition get_crisis_response :: string where
  "get_crisis_response =
     ''I'm very concerned about what you've shared with me. Your safety is the most important '' @
     ''thing right now.\<newline>'' @
     ''\<newline>'' @
     ''Please reach out for immediate help:\<newline>'' @
     ''\<newline>'' @
     [CHR 0xF0, CHR 0x9F, CHR 0x9A, CHR 0xA8] @
     '' **If you're in immediate danger, call emergency services (911) right away.**\<newline>'' @
     ''\<newline>'' @
     [CHR 0xF0, CHR 0x9F, CHR 0x93, CHR 0x9E] @
     '' **Crisis Support:**\<newline>'' @
     ''- National Suicide Prevention Lifeline: 988\<newline>'' @
     ''- Crisis Text Line: Text HOME to 741741\<newline>'' @
     ''- National Domestic Violence Hotline: 1-800-799-7233\<newline>'' @
     ''\<newline>'' @
     [CHR 0xF0, CHR 0x9F, CHR 0x91, CHR 0xA5] @
     '' **Please contact a trusted person in your life right now** - a friend, family member, '' @
     ''counselor, or healthcare provider.\<newline>'' @
     ''\<newline>'' @
     ''You don't have to go through this alone. Professional counselors are trained to help '' @
     ''and want to support you through this difficult time.\<newline>'' @
     ''\<newline>'' @
     ''I care about your wellbeing, but I'm not equipped to provide the immediate professional '' @
     ''help you need right now. Please reach out to one of these resources.''"


section \<open>Sentiment analysis (nlp.py)\<close>

text \<open>
  A Python \<open>float\<close> is modelled by the real number it denotes. A decimal literal denotes
  the IEEE double nearest to it, so the literals of the source are the constants below:
  \<open>0.5\<close> and \<open>1.0\<close> are exact, \<open>0.1\<close>, \<open>0.3\<close>, \<open>0.6\<close> and \<open>0.7\<close> are not. Comparison,
  negation, \<open>abs\<close>, \<open>min\<close> and \<open>max\<close> of doubles are exact; the one rounded operation of
  the program, the subtraction in the HuggingFace path, is a parameter (\<open>float_sub\<close>).
\<close>

definition d0_1 :: real where "d0_1 = 3602879701896397 / 36028797018963968"
definition d0_3 :: real where "d0_3 = 5404319552844595 / 18014398509481984"
definition d0_6 :: real where "d0_6 = 5404319552844595 / 9007199254740992"
definition d0_7 :: real where "d0_7 = 3152519739159347 / 4503599627370496"

record sentiment_result =
  provider :: string
  score :: real
  magnitude :: real
  label :: string
  confidence :: real

text \<open>\<open>SentimentAnalyzer._score_to_label\<close>\<close>

definition score_to_label :: "real \<Rightarrow> string" where
  "score_to_label s =
     (if s > d0_1 then ''positive''
      else if s < - d0_1 then ''negative''
      else ''neutral'')"

definition positive_words :: "string list" where
  "positive_words = [
     ''good'', ''great'', ''happy'', ''joy'', ''love'', ''wonderful'', ''amazing'',
     ''excellent'', ''fantastic'', ''perfect'', ''awesome'', ''brilliant'']"

definition negative_words :: "string list" where
  "negative_words = [
     ''bad'', ''terrible'', ''sad'', ''angry'', ''hate'', ''awful'', ''horrible'',
     ''depressed'', ''anxious'', ''worried'', ''scared'', ''lonely'', ''hopeless'',
     ''suicide'', ''kill'', ''die'', ''hurt'', ''pain'']"

text \<open>\<open>sum(1 for word in word_list if word in text_lower)\<close>\<close>

definition count_words :: "string list \<Rightarrow> string \<Rightarrow> nat" where
  "count_words word_list text_lower = length (filter (\<lambda>word. contains text_lower word) word_list)"

text \<open>\<open>SentimentAnalyzer._basic_sentiment\<close>\<close>

definition basic_sentiment :: "string \<Rightarrow> sentiment_result" where
  "basic_sentiment txt =
     (let text_lower = lower txt;
          positive_count = count_words positive_words text_lower;
          negative_count = count_words negative_words text_lower;
          (score, label) =
            (if negative_count > positive_count then (- d0_7, ''negative'')
             else if positive_count > negative_count then (d0_7, ''positive'')
             else (0, ''neutral''))
      in \<lparr>provider = ''basic'', score = score, magnitude = \<bar>score\<bar>, label = label,
          confidence = d0_6\<rparr>)"

text \<open>
  The analyzer object. \<open>google_client\<close> and \<open>hf_pipeline\<close> are \<open>None\<close> or a service; a
  call to a service returns its answer or raises. Google answers with the document's
  score and magnitude, the pipeline with a list whose first element is the list of
  labelled scores.
\<close>

record sentiment_analyzer =
  google_client :: "(string \<Rightarrow> py_exception + real \<times> real) option"
  hf_pipeline :: "(string \<Rightarrow> py_exception + (string \<times> real) list list) option"
  float_sub :: "real \<Rightarrow> real \<Rightarrow> real"

text \<open>\<open>next((r["score"] for r in results if r["label"] == name), 0.5)\<close>\<close>

fun next_score :: "string \<Rightarrow> (string \<times> real) list \<Rightarrow> real" where
  "next_score name [] = 1 / 2"
| "next_score name ((l, s) # rest) = (if l = name then s else next_score name rest)"

text \<open>\<open>_analyze_with_huggingface\<close>: calling a pipeline that is \<open>None\<close>, a failing pipeline
  and an empty answer (\<open>results[0]\<close>) all raise inside the \<open>try\<close>, which falls back to
  the lexicon.\<close>

definition analyze_with_huggingface :: "sentiment_analyzer \<Rightarrow> string \<Rightarrow> sentiment_result" where
  "analyze_with_huggingface a txt =
     (case hf_pipeline a of
        None \<Rightarrow> basic_sentiment txt
      | Some pipeline \<Rightarrow>
          (case pipeline txt of
             Inl e \<Rightarrow> basic_sentiment txt
           | Inr [] \<Rightarrow> basic_sentiment txt
           | Inr (results # _) \<Rightarrow>
               (let positive_score = next_score ''POSITIVE'' results;
                    negative_score = next_score ''NEGATIVE'' results;
                    score = float_sub a positive_score negative_score;
                    confidence = max positive_score negative_score
                in \<lparr>provider = ''huggingface'', score = score, magnitude = confidence,
                    label = score_to_label score, confidence = confidence\<rparr>)))"

text \<open>\<open>_analyze_with_google\<close>\<close>

definition analyze_with_google :: "sentiment_analyzer \<Rightarrow> string \<Rightarrow> sentiment_result" where
  "analyze_with_google a txt =
     (case google_client a of
        None \<Rightarrow> analyze_with_huggingface a txt
      | Some client \<Rightarrow>
          (case client txt of
             Inl e \<Rightarrow> analyze_with_huggingface a txt
           | Inr (s, m) \<Rightarrow>
               \<lparr>provider = ''google'', score = s, magnitude = m, label = score_to_label s,
                confidence = min m 1\<rparr>))"

text \<open>\<open>SentimentAnalyzer.analyze\<close>. Neither branch raises, so the \<open>except\<close> of \<open>analyze\<close>
  (which returns the lexicon result too) has nothing to catch.\<close>

definition analyze :: "sentiment_analyzer \<Rightarrow> string \<Rightarrow> sentiment_result" where
  "analyze a txt =
     (if google_client a \<noteq> None then analyze_with_google a txt
      else if hf_pipeline a \<noteq> None then analyze_with_huggingface a txt
      else basic_sentiment txt)"


section \<open>Reply generation (llm_client.py)\<close>

text \<open>An entry of a conversation history: the dict with keys \<open>role\<close>, \<open>content\<close> and
  \<open>timestamp\<close> that \<open>chat\<close> builds.\<close>

record msg =
  role :: string
  content :: string
  timestamp :: string

text \<open>
  The client object. Each of the three clients is \<open>None\<close> or a service; a call sends the
  context (with the constant system prompt) and returns the text of the answer, or raises
  (timeout, transport error, malformed payload). \<open>format_2f\<close> is Python's \<open>{:.2f}\<close>
  formatting of a float, taken as a parameter.
\<close>

record llm_client =
  openai_client :: "(string \<Rightarrow> py_exception + string) option"
  gemini_client :: "(string \<Rightarrow> py_exception + string) option"
  anthropic_client :: "(string \<Rightarrow> py_exception + string) option"
  format_2f :: "real \<Rightarrow> string"

text \<open>\<open>xs[-n:]\<close> for a positive \<open>n\<close>: the last \<open>n\<close> elements, or all of a shorter list.\<close>

definition last_n :: "nat \<Rightarrow> 'a list \<Rightarrow> 'a list" where
  "last_n n xs = drop (length xs - n) xs"

text \<open>\<open>sep.join(parts)\<close>\<close>

fun join :: "string \<Rightarrow> string list \<Rightarrow> string" where
  "join sep [] = []"
| "join sep [x] = x"
| "join sep (x # xs) = x @ sep @ join sep xs"

text \<open>\<open>LLMClient._build_context\<close>\<close>

definition build_context :: "llm_client \<Rightarrow> string \<Rightarrow> msg list \<Rightarrow> sentiment_result \<Rightarrow> string" where
  "build_context c current_message conversation_history sentiment =
     (let history_parts =
            (if conversation_history \<noteq> [] then
               ''Recent conversation:'' #
               map (\<lambda>m. (if role m = ''user'' then ''User'' else ''Assistant'') @ '': '' @ content m)
                   (last_n 4 conversation_history)
             else []);
          message_parts =
            [''\<newline>Current user message: '' @ current_message,
             ''Detected sentiment: '' @ label sentiment @ '' (confidence: '' @
               format_2f c (confidence sentiment) @ '')''];
          note_parts =
            (if score sentiment < - d0_3 then
               [''\<newline>Note: User seems to be experiencing negative emotions. '' @
                ''Provide extra validation and gentle coping suggestions.'']
             else []);
          closing_parts =
            [''\<newline>Provide a supportive, empathetic response following the system guidelines:'']
      in join ''\<newline>'' (history_parts @ message_parts @ note_parts @ closing_parts))"

text \<open>\<open>_generate_with_openai\<close>, \<open>_generate_with_anthropic\<close>, \<open>_generate_with_gemini\<close>: the
  answer stripped, and every exception logged and raised again.\<close>

definition generate_with :: "(string \<Rightarrow> py_exception + string) option \<Rightarrow> string \<Rightarrow> py_exception + string" where
  "generate_with client context =
     (case client of
        None \<Rightarrow> Inl AttributeError
      | Some call \<Rightarrow> (case call context of Inl e \<Rightarrow> Inl e | Inr answer \<Rightarrow> Inr (strip answer)))"

definition fallback_negative :: string where
  "fallback_negative =
     ''I hear that you're going through a difficult time right now. Your feelings are completely '' @
     ''valid. Sometimes when we're struggling, it can help to take slow, deep breaths - '' @
     ''in for 4 counts, hold for 4, out for 4. Would you like to talk about what's making '' @
     ''you feel this way?''"

definition fallback_positive :: string where
  "fallback_positive =
     ''I'm glad to hear you're feeling positive! It's wonderful that you're taking time '' @
     ''to check in with yourself. Maintaining good mental health habits, like the ones that '' @
     ''brought you here, is really important. What's been going well for you lately?''"

definition fallback_neutral :: string where
  "fallback_neutral =
     ''Thank you for sharing with me. I'm here to listen and support you. Sometimes it helps '' @
     ''to just talk through what's on your mind. Taking a moment to breathe deeply can also '' @
     ''be grounding. What would be most helpful for you right now?''"

text \<open>\<open>LLMClient._fallback_response\<close>: \<open>responses.get(sentiment_label, responses['neutral'])\<close>\<close>

definition fallback_response :: "sentiment_result \<Rightarrow> string" where
  "fallback_response sentiment =
     (let sentiment_label = label sentiment
      in if sentiment_label = ''negative'' then fallback_negative
         else if sentiment_label = ''positive'' then fallback_positive
         else if sentiment_label = ''neutral'' then fallback_neutral
         else fallback_neutral)"

text \<open>The body of the \<open>try\<close> block of \<open>generate_response\<close>.\<close>

definition generate_response_body :: "llm_client \<Rightarrow> string \<Rightarrow> msg list \<Rightarrow> sentiment_result \<Rightarrow> py_exception + string" where
  "generate_response_body c current_message conversation_history sentiment =
     (let context = build_context c current_message conversation_history sentiment
      in if openai_client c \<noteq> None then generate_with (openai_client c) context
         else if anthropic_client c \<noteq> None then generate_with (anthropic_client c) context
         else if gemini_client c \<noteq> None then generate_with (gemini_client c) context
         else Inr (fallback_response sentiment))"

text \<open>\<open>LLMClient.generate_response\<close>: \<open>except Exception: return self._fallback_response(sentiment)\<close>\<close>

definition generate_response :: "llm_client \<Rightarrow> string \<Rightarrow> msg list \<Rightarrow> sentiment_result \<Rightarrow> string" where
  "generate_response c current_message conversation_history sentiment =
     (case generate_response_body c current_message conversation_history sentiment of
        Inr reply \<Rightarrow> reply
      | Inl e \<Rightarrow> fallback_response sentiment)"

text \<open>
  The reply chain as the specification words it, to compare with \<open>generate_response\<close>:
  the configured providers are attempted in priority order, the first success returns its
  stripped text, and only when all of them fail the canned response is returned.
\<close>

fun reply_chain :: "(string \<Rightarrow> py_exception + string) list \<Rightarrow> string \<Rightarrow> sentiment_result \<Rightarrow> string" where
  "reply_chain [] context sentiment = fallback_response sentiment"
| "reply_chain (call # rest) context sentiment =
     (case call context of
        Inr answer \<Rightarrow> strip answer
      | Inl e \<Rightarrow> reply_chain rest context sentiment)"

definition configured_providers :: "llm_client \<Rightarrow> (string \<Rightarrow> py_exception + string) list" where
  "configured_providers c =
     List.map_filter (\<lambda>x. x) [openai_client c, anthropic_client c, gemini_client c]"

definition generate_response_spec :: "llm_client \<Rightarrow> string \<Rightarrow> msg list \<Rightarrow> sentiment_result \<Rightarrow> string" where
  "generate_response_spec c current_message conversation_history sentiment =
     reply_chain (configured_providers c)
       (build_context c current_message conversation_history sentiment) sentiment"


section \<open>The chat endpoint (main.py)\<close>

record chat_request =
  req_message :: string
  req_conversation_id :: "string option"
  req_user_id :: "string option"

text \<open>\<open>ChatResponse\<close>; its fields carry the prefix \<open>resp_\<close>.\<close>

record chat_response =
  resp_response :: string
  resp_sentiment :: sentiment_result
  resp_crisis_detected :: bool
  resp_timestamp :: string
  resp_conversation_id :: string
  resp_resources :: "string list option"

datatype http_exception = HTTPException nat string

text \<open>What \<open>chat\<close> passes to \<open>logger_db.log_conversation\<close>.\<close>

record log_entry =
  log_conversation_id :: string
  log_sentiment :: sentiment_result
  log_crisis_detected :: bool
  log_severity :: string

text \<open>
  The module's global objects, as \<open>chat\<close> uses them: \<open>sentiment_analyzer.analyze\<close>,
  \<open>crisis_detector.detect_crisis\<close>, \<open>llm_client.generate_response\<close> and
  \<open>logger_db.log_conversation\<close> (\<open>logger_db\<close> is \<open>None\<close> when logging is off). A call
  returns or raises; the test suite replaces these objects by mocks that raise.
\<close>

record components =
  c_analyze :: "string \<Rightarrow> py_exception + sentiment_result"
  c_detect_crisis :: "string \<Rightarrow> py_exception + bool"
  c_generate_response :: "string \<Rightarrow> msg list \<Rightarrow> sentiment_result \<Rightarrow> py_exception + string"
  c_logger_db :: "(log_entry \<Rightarrow> py_exception + unit) option"

text \<open>
  The state of the module. \<open>chat\<close> mutates list objects that the dict \<open>conversations\<close>
  and the local variable \<open>conversation_history\<close> both refer to, so the lists live in a
  heap and the dict holds addresses. \<open>generate_calls\<close> and \<open>log_calls\<close> are not program
  state: they record, in order, the arguments of every call of
  \<open>llm_client.generate_response\<close> and of \<open>logger_db.log_conversation\<close>.
\<close>

record store =
  heap :: "nat \<Rightarrow> msg list option"
  next_addr :: nat
  conversations :: "string \<Rightarrow> nat option"
  generate_calls :: "(string \<times> msg list \<times> sentiment_result) list"
  log_calls :: "log_entry list"

definition empty_store :: store where
  "empty_store = \<lparr>heap = (\<lambda>a. None), next_addr = 0, conversations = (\<lambda>k. None),
                   generate_calls = [], log_calls = []\<rparr>"

text \<open>The list at an address (every address held by a variable or by the dict is
  allocated; an address that is not reads as the empty list).\<close>

definition list_at :: "store \<Rightarrow> nat \<Rightarrow> msg list" where
  "list_at st a = (case heap st a of Some xs \<Rightarrow> xs | None \<Rightarrow> [])"

text \<open>A new list object: \<open>[]\<close> or a slice.\<close>

definition new_list :: "store \<Rightarrow> msg list \<Rightarrow> nat \<times> store" where
  "new_list st xs =
     (next_addr st, st\<lparr>heap := (heap st)(next_addr st \<mapsto> xs), next_addr := Suc (next_addr st)\<rparr>)"

text \<open>\<open>lst.append(m)\<close>\<close>

definition list_append :: "store \<Rightarrow> nat \<Rightarrow> msg \<Rightarrow> store" where
  "list_append st a m = st\<lparr>heap := (heap st)(a \<mapsto> list_at st a @ [m])\<rparr>"

text \<open>\<open>conversations[conversation_id]\<close>, as \<open>get_conversation\<close> returns it.\<close>

definition window :: "store \<Rightarrow> string \<Rightarrow> msg list option" where
  "window st conversation_id = map_option (list_at st) (conversations st conversation_id)"


definition crisis_resources :: "string list" where
  "crisis_resources = [
     ''National Suicide Prevention Lifeline: 988'',
     ''Crisis Text Line: Text HOME to 741741'',
     ''Emergency Services: 911'',
     ''Find local mental health resources at SAMHSA.gov'']"

definition general_resources :: "string list" where
  "general_resources = [
     ''National Alliance on Mental Illness (NAMI): nami.org'',
     ''Mental Health America: mhanational.org'',
     ''Psychology Today therapist finder'']"

text \<open>\<open>request.conversation_id or f"conv_{timestamp}"\<close>\<close>

definition conversation_id_of :: "string \<Rightarrow> chat_request \<Rightarrow> string" where
  "conversation_id_of now request =
     (case req_conversation_id request of
        None \<Rightarrow> ''conv_'' @ now
      | Some c \<Rightarrow> if c = [] then ''conv_'' @ now else c)"

definition user_msg :: "string \<Rightarrow> chat_request \<Rightarrow> msg" where
  "user_msg now request =
     \<lparr>role = ''user'', content = req_message request, timestamp = now\<rparr>"

definition assistant_msg :: "string \<Rightarrow> string \<Rightarrow> msg" where
  "assistant_msg now response_text =
     \<lparr>role = ''assistant'', content = response_text, timestamp = now\<rparr>"

text \<open>
  Lines 71 to 89 of \<open>chat\<close>: get or create the history list, append the user's message and,
  when the list is longer than 6, replace it in the dict by a new list of its last 6
  entries. The result is the address held by the local variable \<open>conversation_history\<close>
  and the new state.
\<close>

definition chat_history :: "string \<Rightarrow> chat_request \<Rightarrow> store \<Rightarrow> nat \<times> store" where
  "chat_history now request st =
     (let conversation_id = conversation_id_of now request;
          (conversation_history, st1) =
            (case conversations st conversation_id of
               Some a \<Rightarrow> (a, st)
             | None \<Rightarrow>
                 (let (a, st') = new_list st []
                  in (a, st'\<lparr>conversations := (conversations st')(conversation_id \<mapsto> a)\<rparr>)));
          st2 = list_append st1 conversation_history (user_msg now request)
      in if length (list_at st2 conversation_history) > 6 then
           (let (a, st3) = new_list st2 (last_n 6 (list_at st2 conversation_history))
            in (a, st3\<lparr>conversations := (conversations st3)(conversation_id \<mapsto> a)\<rparr>))
         else (conversation_history, st2))"

text \<open>\<open>if logger_db: await logger_db.log_conversation(...)\<close>\<close>

definition log_conversation_call :: "components \<Rightarrow> log_entry \<Rightarrow> store \<Rightarrow> (py_exception + unit) \<times> store" where
  "log_conversation_call comps entry st =
     (case c_logger_db comps of
        None \<Rightarrow> (Inr (), st)
      | Some log_conversation \<Rightarrow> (log_conversation entry, st\<lparr>log_calls := log_calls st @ [entry]\<rparr>))"

text \<open>The body of the \<open>try\<close> block of \<open>chat\<close>. The state changes made before an exception
  stay.\<close>

definition chat_body :: "components \<Rightarrow> string \<Rightarrow> chat_request \<Rightarrow> store \<Rightarrow> (py_exception + chat_response) \<times> store" where
  "chat_body comps now request st0 =
     (let conversation_id = conversation_id_of now request;
          (conversation_history, st) = chat_history now request st0
      in case c_analyze comps (req_message request) of
           Inl e \<Rightarrow> (Inl e, st)
         | Inr sentiment \<Rightarrow>
            (case c_detect_crisis comps (req_message request) of
               Inl e \<Rightarrow> (Inl e, st)
             | Inr crisis_detected \<Rightarrow>
                if crisis_detected then
                  (case log_conversation_call comps
                          \<lparr>log_conversation_id = conversation_id, log_sentiment = sentiment,
                           log_crisis_detected = True, log_severity = ''high''\<rparr> st of
                     (Inl e, st1) \<Rightarrow> (Inl e, st1)
                   | (Inr u, st1) \<Rightarrow>
                       (Inr \<lparr>resp_response = get_crisis_response, resp_sentiment = sentiment,
                             resp_crisis_detected = True, resp_timestamp = now,
                             resp_conversation_id = conversation_id,
                             resp_resources = Some crisis_resources\<rparr>, st1))
                else
                  (let recent_messages = last_n 3 (list_at st conversation_history);
                       st1 = st\<lparr>generate_calls := generate_calls st @
                                  [(req_message request, recent_messages, sentiment)]\<rparr>
                   in case c_generate_response comps (req_message request) recent_messages sentiment of
                        Inl e \<Rightarrow> (Inl e, st1)
                      | Inr response_text \<Rightarrow>
                          (let st2 = list_append st1 conversation_history
                                       (assistant_msg now response_text);
                               severity = (if score sentiment < - (1 / 2) then ''medium'' else ''low'')
                           in case log_conversation_call comps
                                     \<lparr>log_conversation_id = conversation_id, log_sentiment = sentiment,
                                      log_crisis_detected = False, log_severity = severity\<rparr> st2 of
                                (Inl e, st3) \<Rightarrow> (Inl e, st3)
                              | (Inr u, st3) \<Rightarrow>
                                  (Inr \<lparr>resp_response = response_text, resp_sentiment = sentiment,
                                        resp_crisis_detected = False, resp_timestamp = now,
                                        resp_conversation_id = conversation_id,
                                        resp_resources = Some general_resources\<rparr>, st3)))))"

definition internal_server_error :: http_exception where
  "internal_server_error = HTTPException 500 ''Internal server error''"

text \<open>\<open>chat\<close>: \<open>except Exception: raise HTTPException(status_code=500, ...)\<close>. The first
  argument after the components is the value of \<open>datetime.now().isoformat()\<close>.\<close>

definition chat :: "components \<Rightarrow> string \<Rightarrow> chat_request \<Rightarrow> store \<Rightarrow> (http_exception + chat_response) \<times> store" where
  "chat comps now request st0 =
     (case chat_body comps now request st0 of
        (Inl e, st) \<Rightarrow> (Inl internal_server_error, st)
      | (Inr r, st) \<Rightarrow> (Inr r, st))"

text \<open>
  The objects \<open>main.py\<close> creates: the analyzer, the detector and the client of this
  repository, none of which raises, and \<open>ConversationLogger\<close> when logging is on, whose
  \<open>log_conversation\<close> catches every exception of the database.
\<close>

definition main_components :: "sentiment_analyzer \<Rightarrow> llm_client \<Rightarrow> bool \<Rightarrow> components" where
  "main_components sentiment_analyzer llm_client logging =
     \<lparr>c_analyze = (\<lambda>txt. Inr (analyze sentiment_analyzer txt)),
      c_detect_crisis = (\<lambda>message. Inr (detect_crisis (PyStr message))),
      c_generate_response = (\<lambda>current_message conversation_history sentiment.
         Inr (generate_response llm_client current_message conversation_history sentiment)),
      c_logger_db = (if logging then Some (\<lambda>entry. Inr ()) else None)\<rparr>"


text \<open>The window of a conversation before a request: empty when the id is new.\<close>

definition prior_window :: "store \<Rightarrow> string \<Rightarrow> msg list" where
  "prior_window st conversation_id =
     (case window st conversation_id of Some w \<Rightarrow> w | None \<Rightarrow> [])"


section \<open>Stand-ins for the external services\<close>

text \<open>Fixed services and requests for the concrete runs below, in the manner of the mocks
  of \<open>tests/test_api.py\<close>: services that are not configured, that raise, or that answer.\<close>

definition plain_sub :: "real \<Rightarrow> real \<Rightarrow> real" where
  "plain_sub x y = x - y"

definition no_sentiment_services :: sentiment_analyzer where
  "no_sentiment_services = \<lparr>google_client = None, hf_pipeline = None, float_sub = plain_sub\<rparr>"



definition fixed_format :: "real \<Rightarrow> string" where
  "fixed_format x = ''0.60''"

definition no_llm_clients :: llm_client where
  "no_llm_clients = \<lparr>openai_client = None, gemini_client = None, anthropic_client = None,
                      format_2f = fixed_format\<rparr>"

definition failing_llm :: "string \<Rightarrow> py_exception + string" where
  "failing_llm context = Inl (Exception ''LLM API failed'')"

definition answering_llm :: "string \<Rightarrow> py_exception + string" where
  "answering_llm context = Inr '' I'm here to listen. ''"

definition openai_down :: llm_client where
  "openai_down = \<lparr>openai_client = Some failing_llm, gemini_client = None,
                   anthropic_client = Some answering_llm, format_2f = fixed_format\<rparr>"

definition failing_analyze :: "string \<Rightarrow> py_exception + sentiment_result" where
  "failing_analyze txt = Inl (Exception ''Sentiment API failed'')"

definition mocked_analyzer_components :: components where
  "mocked_analyzer_components =
     (main_components no_sentiment_services no_llm_clients False)\<lparr>c_analyze := failing_analyze\<rparr>"

definition request_on :: "string \<Rightarrow> string \<Rightarrow> chat_request" where
  "request_on conversation_id message =
     \<lparr>req_message = message, req_conversation_id = Some conversation_id, req_user_id = None\<rparr>"

text \<open>The state after one more request handled by the repository's own components with no
  service configured and logging off.\<close>

definition after_request :: "string \<Rightarrow> string \<Rightarrow> store \<Rightarrow> store" where
  "after_request conversation_id message st =
     snd (chat (main_components no_sentiment_services no_llm_clients False) ''t''
            (request_on conversation_id message) st)"

section \<open>Substrings\<close>

lemma starts_with_iff: "starts_with s p \<longleftrightarrow> (\<exists>b. s = p @ b)"
  by (induction s p rule: starts_with.induct) auto

text \<open>\<open>contains s p\<close> is Python's \<open>p in s\<close>: \<open>p\<close> occurs in \<open>s\<close> as a contiguous block.\<close>

lemma contains_iff: "contains s p \<longleftrightarrow> (\<exists>a b. s = a @ p @ b)"
proof (induction s)
  case Nil
  then show ?case by (auto simp: starts_with_iff)
next
  case (Cons c cs)
  show ?case
  proof
    assume "contains (c # cs) p"
    then consider "starts_with (c # cs) p" | "contains cs p" by auto
    then show "\<exists>a b. c # cs = a @ p @ b"
    proof cases
      case 1
      then obtain b where "c # cs = p @ b" by (auto simp: starts_with_iff)
      then have "c # cs = [] @ p @ b" by simp
      then show ?thesis by blast
    next
      case 2
      then obtain a b where "cs = a @ p @ b" using Cons.IH by blast
      then have "c # cs = (c # a) @ p @ b" by simp
      then show ?thesis by blast
    qed
  next
    assume "\<exists>a b. c # cs = a @ p @ b"
    then obtain a b where ab: "c # cs = a @ p @ b" by blast
    show "contains (c # cs) p"
    proof (cases a)
      case Nil
      with ab have "starts_with (c # cs) p" by (auto simp: starts_with_iff)
      then show ?thesis by simp
    next
      case (Cons x a')
      with ab have "cs = a' @ p @ b" by simp
      then have "contains cs p" using Cons.IH by blast
      then show ?thesis by simp
    qed
  qed
qed


section \<open>The matcher on literals\<close>

text \<open>A literal pattern is found by \<open>search\<close> exactly when it occurs in the message,
  letter case apart.\<close>

lemma rmatch_lit:
  "rmatch (lit w) (p, s) \<noteq> [] \<longleftrightarrow> starts_with (lower s) (lower w)"
proof (induction w arbitrary: p s)
  case Nil
  then show ?case by (simp add: lit_def lower_def)
next
  case (Cons c w)
  have step: "lit (c # w) = Seq (Chr c) (lit w)" by (simp add: lit_def)
  show ?case
  proof (cases s)
    case Nil
    then show ?thesis by (simp add: step lower_def)
  next
    case (Cons x xs)
    then show ?thesis using Cons.IH [of "Some x" xs] by (simp add: step lower_def)
  qed
qed

lemma search_at_lit: "search_at (lit w) p s \<longleftrightarrow> contains (lower s) (lower w)"
  by (induction s arbitrary: p) (simp_all add: rmatch_lit lower_def)

lemma search_lit: "search (lit w) s \<longleftrightarrow> contains (lower s) (lower w)"
  by (simp add: search_def search_at_lit)


section \<open>The crisis detector\<close>

lemma any_combination_iff:
  "any_combination cs m \<longleftrightarrow>
     (\<exists>combination \<in> set cs. \<forall>word \<in> set combination. contains m word)"
  by (induction cs) (auto simp: list_all_iff)

lemma any_phrase_iff: "any_phrase ps m \<longleftrightarrow> (\<exists>p \<in> set ps. contains m p)"
  by (induction ps) auto

lemma any_pattern_str: "any_pattern ps (PyStr s) = Inr (\<exists>r \<in> set ps. search r s)"
  by (induction ps) (auto simp: pattern_search_def)

text \<open>On a string the body of \<open>detect_crisis\<close> returns, and it returns the disjunction of
  the three stages.\<close>

lemma detect_crisis_body_str:
  "detect_crisis_body (PyStr s) =
     Inr ((\<exists>r \<in> set crisis_patterns. search r s) \<or> any_phrase high_risk_phrases (lower s)
          \<or> contextual_crisis_check (lower s))"
  by (auto simp: detect_crisis_body_def any_pattern_str message_lower_def)

lemma detect_crisis_str:
  "detect_crisis (PyStr s) \<longleftrightarrow>
     (\<exists>r \<in> set crisis_patterns. search r s) \<or> any_phrase high_risk_phrases (lower s)
      \<or> contextual_crisis_check (lower s)"
  by (simp add: detect_crisis_def detect_crisis_body_str)

lemma detect_crisis_empty: "detect_crisis (PyStr []) = False"
  by code_simp

lemma detect_crisis_body_None: "detect_crisis_body PyNone = Inl TypeError"
  by code_simp

text \<open>
  Claim C2. On every string, the empty one included, the body of \<open>detect_crisis\<close>
  returns a boolean and raises nothing; whenever the body raises (on any argument), the
  \<open>except\<close> clause makes \<open>detect_crisis\<close> return \<open>False\<close>; and the empty string yields
  \<open>False\<close>.
\<close>

theorem detect_crisis_never_raises:
  "(\<exists>b. detect_crisis_body (PyStr s) = Inr b)
   \<and> (detect_crisis_body v = Inl e \<longrightarrow> detect_crisis v = False)
   \<and> detect_crisis (PyStr []) = False"
  using detect_crisis_empty by (simp add: detect_crisis_body_str detect_crisis_def)

theorem detect_crisis_never_raises_witness:
  "detect_crisis_body PyNone = Inl TypeError \<and> detect_crisis PyNone = False"
  using detect_crisis_never_raises [of "[]" PyNone TypeError] detect_crisis_body_None by simp

lemma detect_kill_myself: "detect_crisis (PyStr ''I want to kill myself'')"
  by code_simp

lemma detect_end_my_life: "detect_crisis (PyStr ''I'm going to end my life tonight'')"
  by code_simp

lemma detect_cut_myself: "detect_crisis (PyStr ''I want to cut myself'')"
  by code_simp

lemma detect_burning_myself: "detect_crisis (PyStr ''I've been burning myself'')"
  by code_simp

lemma no_crisis_good_day: "\<not> detect_crisis (PyStr ''I had a good day'')"
  by code_simp

lemma no_crisis_anxiety: "\<not> detect_crisis (PyStr ''Can you help me with anxiety?'')"
  by code_simp

text \<open>
  Claim C3. \<open>detect_crisis\<close> returns \<open>True\<close> on "I want to kill myself", "I'm going to
  end my life tonight", "I want to cut myself" and "I've been burning myself", and
  \<open>False\<close> on the empty string, "I had a good day" and "Can you help me with anxiety?".
\<close>

theorem detect_crisis_examples:
  "detect_crisis (PyStr ''I want to kill myself'')
   \<and> detect_crisis (PyStr ''I'm going to end my life tonight'')
   \<and> detect_crisis (PyStr ''I want to cut myself'')
   \<and> detect_crisis (PyStr ''I've been burning myself'')
   \<and> \<not> detect_crisis (PyStr [])
   \<and> \<not> detect_crisis (PyStr ''I had a good day'')
   \<and> \<not> detect_crisis (PyStr ''Can you help me with anxiety?'')"
  using detect_kill_myself detect_end_my_life detect_cut_myself detect_burning_myself
    detect_crisis_empty no_crisis_good_day no_crisis_anxiety
  by simp

lemma painting_has_words:
  "contains (lower ''My PAINTING can't dry anymore'') ''pain''
   \<and> contains (lower ''My PAINTING can't dry anymore'') ''can't''
   \<and> contains (lower ''My PAINTING can't dry anymore'') ''anymore''"
  by code_simp

lemma painting_no_pattern:
  "any_pattern crisis_patterns (PyStr ''My PAINTING can't dry anymore'') = Inr False"
  by code_simp

lemma painting_no_phrase:
  "\<not> any_phrase high_risk_phrases (lower ''My PAINTING can't dry anymore'')"
  by code_simp

text \<open>
  Claim C4. Whenever the lowercased message contains "pain", "can't" and "anymore" as
  substrings, in any order and position, \<open>detect_crisis\<close> returns \<open>True\<close>, whether or
  not a pattern or a phrase matches; and the word-combination check fires exactly when
  some combination has every one of its words as a substring of the (lowercased) message
  it is given.
\<close>

theorem word_combination_rule:
  "(contains (lower s) ''pain'' \<and> contains (lower s) ''can't'' \<and> contains (lower s) ''anymore''
      \<longrightarrow> detect_crisis (PyStr s))
   \<and> contextual_crisis_check m =
       (\<exists>combination \<in> set crisis_combinations. \<forall>word \<in> set combination. contains m word)"
proof -
  have "contextual_crisis_check m =
       (\<exists>combination \<in> set crisis_combinations. \<forall>word \<in> set combination. contains m word)" for m
    by (simp only: contextual_crisis_check_def any_combination_iff)
  moreover have "contextual_crisis_check (lower s)"
    if "contains (lower s) ''pain''" "contains (lower s) ''can't''" "contains (lower s) ''anymore''"
    using that by (simp add: contextual_crisis_check_def crisis_combinations_def)
  ultimately show ?thesis by (simp add: detect_crisis_str)
qed

theorem word_combination_rule_witness:
  "contains (lower ''My PAINTING can't dry anymore'') ''pain''
   \<and> contains (lower ''My PAINTING can't dry anymore'') ''can't''
   \<and> contains (lower ''My PAINTING can't dry anymore'') ''anymore''
   \<and> any_pattern crisis_patterns (PyStr ''My PAINTING can't dry anymore'') = Inr False
   \<and> \<not> any_phrase high_risk_phrases (lower ''My PAINTING can't dry anymore'')
   \<and> detect_crisis (PyStr ''My PAINTING can't dry anymore'')
   \<and> (\<exists>combination \<in> set crisis_combinations.
         \<forall>word \<in> set combination. contains (lower ''My PAINTING can't dry anymore'') word)"
proof -
  note w = painting_has_words
  note r = word_combination_rule
    [of "''My PAINTING can't dry anymore''" "lower ''My PAINTING can't dry anymore''"]
  from r w have d: "detect_crisis (PyStr ''My PAINTING can't dry anymore'')" by blast
  from w have "contextual_crisis_check (lower ''My PAINTING can't dry anymore'')"
    by (simp add: contextual_crisis_check_def crisis_combinations_def)
  with r have "\<exists>combination \<in> set crisis_combinations.
         \<forall>word \<in> set combination. contains (lower ''My PAINTING can't dry anymore'') word"
    by blast
  with w d painting_no_pattern painting_no_phrase show ?thesis by blast
qed

section \<open>Sentiment\<close>

lemma d0_1_pos: "0 < d0_1"
  by (simp add: d0_1_def)

lemma d0_1_less_d0_7: "d0_1 < d0_7"
  by (simp add: d0_1_def d0_7_def)

lemma basic_sentiment_label:
  "label (basic_sentiment txt) = score_to_label (score (basic_sentiment txt))"
  using d0_1_pos d0_1_less_d0_7
  by (simp add: basic_sentiment_def Let_def score_to_label_def)

lemma analyze_with_huggingface_label:
  "label (analyze_with_huggingface a txt) = score_to_label (score (analyze_with_huggingface a txt))"
  by (simp add: analyze_with_huggingface_def Let_def basic_sentiment_label
      split: option.splits sum.splits list.splits)

lemma analyze_with_google_label:
  "label (analyze_with_google a txt) = score_to_label (score (analyze_with_google a txt))"
  by (simp add: analyze_with_google_def analyze_with_huggingface_label
      split: option.splits sum.splits prod.splits)

text \<open>
  Claim C7. \<open>score_to_label\<close> maps a score to "positive" exactly when it is greater
  than 0.1, to "negative" exactly when it is less than -0.1 and to "neutral" in every
  other case, so 0.1 and -0.1 themselves are "neutral" (\<open>d0_1\<close> is the double that the
  literal \<open>0.1\<close> denotes); and whichever provider produced the result of \<open>analyze\<close>
  (Google, HuggingFace or the lexicon), its label is \<open>score_to_label\<close> of its score.
\<close>

theorem score_to_label_rule:
  "(score_to_label s = ''positive'' \<longleftrightarrow> s > d0_1)
   \<and> (score_to_label s = ''negative'' \<longleftrightarrow> s < - d0_1)
   \<and> (score_to_label s = ''neutral'' \<longleftrightarrow> \<not> s > d0_1 \<and> \<not> s < - d0_1)
   \<and> score_to_label d0_1 = ''neutral''
   \<and> score_to_label (- d0_1) = ''neutral''
   \<and> label (analyze a txt) = score_to_label (score (analyze a txt))"
proof -
  have "label (analyze a txt) = score_to_label (score (analyze a txt))"
    by (simp add: analyze_def analyze_with_google_label analyze_with_huggingface_label
        basic_sentiment_label)
  then show ?thesis
    using d0_1_pos by (simp add: score_to_label_def)
qed

















section \<open>Reply generation\<close>

lemma fallback_templates_nonempty:
  "fallback_negative \<noteq> [] \<and> fallback_positive \<noteq> [] \<and> fallback_neutral \<noteq> []"
  by (simp add: fallback_negative_def fallback_positive_def fallback_neutral_def)

lemma generate_response_first:
  "generate_response c m h s =
     (case configured_providers c of
        [] \<Rightarrow> fallback_response s
      | call # rest \<Rightarrow>
          (case call (build_context c m h s) of
             Inr answer \<Rightarrow> strip answer
           | Inl e \<Rightarrow> fallback_response s))"
  by (cases "openai_client c"; cases "anthropic_client c"; cases "gemini_client c")
     (simp_all add: generate_response_def generate_response_body_def generate_with_def
        configured_providers_def List.map_filter_def Let_def split: sum.splits)

text \<open>
  Claim C6, as amended. \<open>generate_response\<close> attempts one provider only, the first
  configured one in the order OpenAI, Anthropic, Gemini: its stripped answer is the
  reply when the call succeeds; when that call fails, or no provider is configured, the
  reply is the canned response, chosen by the sentiment label among three fixed
  non-empty templates (negative, positive, and the neutral one for any other label).
  The function is total: it never fails outward.
\<close>

theorem generate_response_first_provider_only:
  "generate_response c m h s =
     (case configured_providers c of
        [] \<Rightarrow> fallback_response s
      | call # rest \<Rightarrow>
          (case call (build_context c m h s) of
             Inr answer \<Rightarrow> strip answer
           | Inl e \<Rightarrow> fallback_response s))
   \<and> configured_providers c =
       List.map_filter (\<lambda>x. x) [openai_client c, anthropic_client c, gemini_client c]
   \<and> fallback_response s =
       (if label s = ''negative'' then fallback_negative
        else if label s = ''positive'' then fallback_positive
        else fallback_neutral)
   \<and> fallback_negative \<noteq> [] \<and> fallback_positive \<noteq> [] \<and> fallback_neutral \<noteq> []"
  using fallback_templates_nonempty generate_response_first [of c m h s]
  by (simp add: fallback_response_def configured_providers_def)

lemma hello_is_neutral: "label (basic_sentiment ''Hello'') = ''neutral''"
  by code_simp

lemma openai_down_providers: "configured_providers openai_down = [failing_llm, answering_llm]"
  by (simp add: configured_providers_def openai_down_def List.map_filter_def)

lemma strip_answer: "strip '' I'm here to listen. '' = ''I'm here to listen.''"
  by code_simp

lemma answer_is_not_canned: "fallback_neutral \<noteq> ''I'm here to listen.''"
  by (simp add: fallback_neutral_def)

text \<open>
  Claim C6 as stated fails: with OpenAI configured and failing and Anthropic configured
  and answering, the chain of the specification returns Anthropic's answer, while
  \<open>generate_response\<close> returns the canned neutral response without attempting Anthropic.
\<close>

theorem generate_response_does_not_advance:
  "generate_response openai_down ''Hello'' [] (basic_sentiment ''Hello'') = fallback_neutral
   \<and> generate_response_spec openai_down ''Hello'' [] (basic_sentiment ''Hello'') = ''I'm here to listen.''
   \<and> generate_response openai_down ''Hello'' [] (basic_sentiment ''Hello'')
       \<noteq> generate_response_spec openai_down ''Hello'' [] (basic_sentiment ''Hello'')"
proof -
  have a: "generate_response openai_down ''Hello'' [] (basic_sentiment ''Hello'') = fallback_neutral"
    using hello_is_neutral
    by (simp add: generate_response_first openai_down_providers failing_llm_def fallback_response_def)
  have b: "generate_response_spec openai_down ''Hello'' [] (basic_sentiment ''Hello'')
           = ''I'm here to listen.''"
    using strip_answer
    by (simp add: generate_response_spec_def openai_down_providers failing_llm_def answering_llm_def)
  from a b answer_is_not_canned show ?thesis by simp
qed

section \<open>The conversation window\<close>

lemma last_n_short: "length xs \<le> n \<Longrightarrow> last_n n xs = xs"
  by (simp add: last_n_def)

lemma length_last_n: "length (last_n n xs) = min n (length xs)"
  by (simp add: last_n_def)

lemma last_n_last_n: "m \<le> n \<Longrightarrow> last_n m (last_n n xs) = last_n m xs"
proof -
  assume "m \<le> n"
  then have "length xs - (length xs - n) - m + (length xs - n) = length xs - m" by arith
  then show ?thesis by (simp add: last_n_def)
qed


text \<open>Eviction keeps a suffix: the oldest entries go, the rest keep their order.\<close>

lemma last_n_suffix: "\<exists>dropped. xs = dropped @ last_n n xs"
proof
  show "xs = take (length xs - n) xs @ last_n n xs" by (simp add: last_n_def)
qed

lemma list_at_list_append [simp]: "list_at (list_append st a m) a = list_at st a @ [m]"
  by (simp add: list_at_def list_append_def)

lemma list_append_fields [simp]:
  "conversations (list_append st a m) = conversations st"
  "generate_calls (list_append st a m) = generate_calls st"
  "log_calls (list_append st a m) = log_calls st"
  by (simp_all add: list_append_def)

lemma list_at_ghost [simp]:
  "list_at (st\<lparr>generate_calls := g\<rparr>) a = list_at st a"
  "list_at (st\<lparr>log_calls := l\<rparr>) a = list_at st a"
  by (simp_all add: list_at_def)


lemma conversation_id_of_request_on:
  "cid \<noteq> [] \<Longrightarrow> conversation_id_of now (request_on cid m) = cid"
  by (simp add: conversation_id_of_def request_on_def)

text \<open>Lines 71 to 89: afterwards the dict entry and the local variable hold the same
  address, and the list there is the last 6 entries of the prior window followed by the
  user's message.\<close>

lemma chat_history_effect:
  assumes "chat_history now req st = (a, st')"
  shows "conversations st' (conversation_id_of now req) = Some a"
    and "list_at st' a = last_n 6 (prior_window st (conversation_id_of now req) @ [user_msg now req])"
    and "generate_calls st' = generate_calls st"
    and "log_calls st' = log_calls st"
  using assms
  by (auto simp: chat_history_def Let_def new_list_def list_append_def list_at_def window_def
      prior_window_def last_n_short split: option.splits if_splits prod.splits)

lemma log_conversation_call_effect:
  assumes "log_conversation_call comps entry st = (r, st')"
  shows "conversations st' = conversations st" and "list_at st' a = list_at st a"
    and "generate_calls st' = generate_calls st"
  using assms by (auto simp: log_conversation_call_def split: option.splits)

text \<open>When the analysis or the detection raises, or the detection returns \<open>True\<close>, the
  window has gained the user's message and nothing else, and no reply was generated.\<close>

lemma chat_window_no_reply:
  assumes "(\<exists>e. c_analyze comps (req_message req) = Inl e)
           \<or> (\<exists>e. c_detect_crisis comps (req_message req) = Inl e)
           \<or> c_detect_crisis comps (req_message req) = Inr True"
  shows "window (snd (chat comps now req st)) (conversation_id_of now req) =
           Some (last_n 6 (prior_window st (conversation_id_of now req) @ [user_msg now req]))"
    and "generate_calls (snd (chat comps now req st)) = generate_calls st"
proof -
  obtain a st1 where h: "chat_history now req st = (a, st1)" by (cases "chat_history now req st")
  note eff = chat_history_effect [OF h]
  obtain r st2 where l: "log_conversation_call comps
       \<lparr>log_conversation_id = conversation_id_of now req,
        log_sentiment = (case c_analyze comps (req_message req) of Inr s \<Rightarrow> s),
        log_crisis_detected = True, log_severity = ''high''\<rparr> st1 = (r, st2)"
    by (cases "log_conversation_call comps
       \<lparr>log_conversation_id = conversation_id_of now req,
        log_sentiment = (case c_analyze comps (req_message req) of Inr s \<Rightarrow> s),
        log_crisis_detected = True, log_severity = ''high''\<rparr> st1")
  note leff = log_conversation_call_effect [OF l]
  show "window (snd (chat comps now req st)) (conversation_id_of now req) =
           Some (last_n 6 (prior_window st (conversation_id_of now req) @ [user_msg now req]))"
    using assms h eff l leff
    by (auto simp: chat_def chat_body_def Let_def window_def split: sum.splits prod.splits)
  show "generate_calls (snd (chat comps now req st)) = generate_calls st"
    using assms h eff l leff
    by (auto simp: chat_def chat_body_def Let_def window_def split: sum.splits prod.splits)
qed

text \<open>When a reply is generated, it is appended after the trim, to the list the dict
  holds, and the call of \<open>generate_response\<close> got the last 3 entries of the trimmed list.\<close>

lemma chat_window_reply:
  assumes "c_analyze comps (req_message req) = Inr s"
    and "c_detect_crisis comps (req_message req) = Inr False"
    and "c_generate_response comps (req_message req)
           (last_n 3 (prior_window st (conversation_id_of now req) @ [user_msg now req])) s = Inr t"
  shows "window (snd (chat comps now req st)) (conversation_id_of now req) =
           Some (last_n 6 (prior_window st (conversation_id_of now req) @ [user_msg now req])
                 @ [assistant_msg now t])"
    and "generate_calls (snd (chat comps now req st)) = generate_calls st @
           [(req_message req,
             last_n 3 (prior_window st (conversation_id_of now req) @ [user_msg now req]), s)]"
proof -
  obtain a st1 where h: "chat_history now req st = (a, st1)" by (cases "chat_history now req st")
  note eff = chat_history_effect [OF h]
  define ctx where "ctx = last_n 3 (prior_window st (conversation_id_of now req) @ [user_msg now req])"
  have ctx: "last_n 3 (list_at st1 a) = ctx"
    by (simp add: eff(2) ctx_def last_n_last_n)
  define st2 where "st2 = list_append (st1\<lparr>generate_calls := generate_calls st1 @
      [(req_message req, ctx, s)]\<rparr>) a (assistant_msg now t)"
  obtain r st3 where l: "log_conversation_call comps
       \<lparr>log_conversation_id = conversation_id_of now req, log_sentiment = s,
        log_crisis_detected = False,
        log_severity = (if score s < - (1 / 2) then ''medium'' else ''low'')\<rparr> st2 = (r, st3)"
    by (cases "log_conversation_call comps
       \<lparr>log_conversation_id = conversation_id_of now req, log_sentiment = s,
        log_crisis_detected = False,
        log_severity = (if score s < - (1 / 2) then ''medium'' else ''low'')\<rparr> st2")
  note leff = log_conversation_call_effect [OF l]
  have snd_chat: "snd (chat comps now req st) = st3"
    using assms h ctx l
    by (auto simp: chat_def chat_body_def Let_def st2_def ctx_def [symmetric]
        split: sum.splits prod.splits)
  show "window (snd (chat comps now req st)) (conversation_id_of now req) =
           Some (last_n 6 (prior_window st (conversation_id_of now req) @ [user_msg now req])
                 @ [assistant_msg now t])"
    by (simp add: snd_chat window_def leff st2_def eff)
  show "generate_calls (snd (chat comps now req st)) = generate_calls st @
           [(req_message req,
             last_n 3 (prior_window st (conversation_id_of now req) @ [user_msg now req]), s)]"
    by (simp add: snd_chat leff st2_def eff ctx_def)
qed

lemma chat_window_generate_fails:
  assumes "c_analyze comps (req_message req) = Inr s"
    and "c_detect_crisis comps (req_message req) = Inr False"
    and "c_generate_response comps (req_message req)
           (last_n 3 (prior_window st (conversation_id_of now req) @ [user_msg now req])) s = Inl e"
  shows "window (snd (chat comps now req st)) (conversation_id_of now req) =
           Some (last_n 6 (prior_window st (conversation_id_of now req) @ [user_msg now req]))"
    and "fst (chat comps now req st) = Inl internal_server_error"
proof -
  obtain a st1 where h: "chat_history now req st = (a, st1)" by (cases "chat_history now req st")
  note eff = chat_history_effect [OF h]
  have ctx: "last_n 3 (list_at st1 a) =
      last_n 3 (prior_window st (conversation_id_of now req) @ [user_msg now req])"
    by (simp add: eff(2) last_n_last_n)
  show "window (snd (chat comps now req st)) (conversation_id_of now req) =
           Some (last_n 6 (prior_window st (conversation_id_of now req) @ [user_msg now req]))"
    using assms h eff ctx
    by (auto simp: chat_def chat_body_def Let_def window_def split: sum.splits prod.splits)
  show "fst (chat comps now req st) = Inl internal_server_error"
    using assms h eff ctx
    by (auto simp: chat_def chat_body_def Let_def window_def split: sum.splits prod.splits)
qed

text \<open>In every case the window after a request is the trimmed list, followed by at most
  one reply: it has at most 7 entries.\<close>

lemma chat_window_cases:
  "window (snd (chat comps now req st)) (conversation_id_of now req) =
     Some (last_n 6 (prior_window st (conversation_id_of now req) @ [user_msg now req]))
   \<or> (\<exists>t. window (snd (chat comps now req st)) (conversation_id_of now req) =
     Some (last_n 6 (prior_window st (conversation_id_of now req) @ [user_msg now req])
           @ [assistant_msg now t]))"
proof (cases "c_analyze comps (req_message req)")
  case (Inl e)
  then show ?thesis using chat_window_no_reply(1) [of comps req now st] by blast
next
  case s: (Inr s)
  show ?thesis
  proof (cases "c_detect_crisis comps (req_message req)")
    case (Inl e)
    then show ?thesis using chat_window_no_reply(1) [of comps req now st] by blast
  next
    case d: (Inr d)
    show ?thesis
    proof (cases d)
      case True
      with d have "c_detect_crisis comps (req_message req) = Inr True" by simp
      then show ?thesis using chat_window_no_reply(1) [of comps req now st] by blast
    next
      case False
      with d have d': "c_detect_crisis comps (req_message req) = Inr False" by simp
      show ?thesis
      proof (cases "c_generate_response comps (req_message req)
           (last_n 3 (prior_window st (conversation_id_of now req) @ [user_msg now req])) s")
        case (Inl e)
        from chat_window_generate_fails(1) [OF s d' Inl] show ?thesis by blast
      next
        case (Inr t)
        from chat_window_reply(1) [OF s d' Inr] show ?thesis by blast
      qed
    qed
  qed
qed

lemma chat_window_at_most_seven:
  "\<exists>w. window (snd (chat comps now req st)) (conversation_id_of now req) = Some w \<and> length w \<le> 7"
  using chat_window_cases [of comps now req st] by (auto simp: length_last_n)

section \<open>The chat endpoint with the repository's own components\<close>

lemma main_components_calls [simp]:
  "c_analyze (main_components sa lc logging) m = Inr (analyze sa m)"
  "c_detect_crisis (main_components sa lc logging) m = Inr (detect_crisis (PyStr m))"
  "c_generate_response (main_components sa lc logging) m h s = Inr (generate_response lc m h s)"
  by (simp_all add: main_components_def)

lemma main_log_returns:
  "\<exists>st'. log_conversation_call (main_components sa lc logging) entry st = (Inr (), st')"
  by (simp add: log_conversation_call_def main_components_def)

lemma crisis_response_numbers:
  "contains get_crisis_response ''988'' \<and> contains get_crisis_response ''911''"
  by code_simp

lemma main_chat_crisis_result:
  assumes "detect_crisis (PyStr (req_message request))"
  shows "fst (chat (main_components sa lc logging) now request st) =
           Inr \<lparr>resp_response = get_crisis_response,
                resp_sentiment = analyze sa (req_message request),
                resp_crisis_detected = True, resp_timestamp = now,
                resp_conversation_id = conversation_id_of now request,
                resp_resources = Some crisis_resources\<rparr>"
proof -
  obtain a st1 where h: "chat_history now request st = (a, st1)"
    by (cases "chat_history now request st")
  obtain st2 where l: "log_conversation_call (main_components sa lc logging)
       \<lparr>log_conversation_id = conversation_id_of now request,
        log_sentiment = analyze sa (req_message request),
        log_crisis_detected = True, log_severity = ''high''\<rparr> st1 = (Inr (), st2)"
    using main_log_returns by blast
  show ?thesis
    using assms h l by (simp add: chat_def chat_body_def Let_def)
qed

lemma main_chat_reply_result:
  assumes "\<not> detect_crisis (PyStr (req_message request))"
  shows "\<exists>r. fst (chat (main_components sa lc logging) now request st) = Inr r
              \<and> \<not> resp_crisis_detected r"
proof -
  obtain a st1 where h: "chat_history now request st = (a, st1)"
    by (cases "chat_history now request st")
  define reply where "reply = generate_response lc (req_message request)
      (last_n 3 (list_at st1 a)) (analyze sa (req_message request))"
  define st2 where "st2 = list_append
      (st1\<lparr>generate_calls := generate_calls st1 @
         [(req_message request, last_n 3 (list_at st1 a), analyze sa (req_message request))]\<rparr>)
      a (assistant_msg now reply)"
  obtain st3 where l: "log_conversation_call (main_components sa lc logging)
       \<lparr>log_conversation_id = conversation_id_of now request,
        log_sentiment = analyze sa (req_message request),
        log_crisis_detected = False,
        log_severity = (if score (analyze sa (req_message request)) < - (1 / 2)
                        then ''medium'' else ''low'')\<rparr> st2 = (Inr (), st3)"
    using main_log_returns by blast
  show ?thesis
    using assms h l
    by (simp add: chat_def chat_body_def Let_def reply_def [symmetric] st2_def [symmetric])
qed

lemma main_chat_returns:
  "\<exists>r. fst (chat (main_components sa lc logging) now request st) = Inr r"
  using main_chat_crisis_result [of request sa lc logging now st]
    main_chat_reply_result [of request sa lc logging now st]
  by (cases "detect_crisis (PyStr (req_message request))") auto

lemma main_chat_reply_window:
  assumes "\<not> detect_crisis (PyStr (req_message req))"
  shows "window (snd (chat (main_components sa lc logging) now req st)) (conversation_id_of now req) =
           Some (last_n 6 (prior_window st (conversation_id_of now req) @ [user_msg now req])
                 @ [assistant_msg now (generate_response lc (req_message req)
                     (last_n 3 (prior_window st (conversation_id_of now req) @ [user_msg now req]))
                     (analyze sa (req_message req)))])"
    and "generate_calls (snd (chat (main_components sa lc logging) now req st)) = generate_calls st @
           [(req_message req,
             last_n 3 (prior_window st (conversation_id_of now req) @ [user_msg now req]),
             analyze sa (req_message req))]"
  using assms
    chat_window_reply [of "main_components sa lc logging" req "analyze sa (req_message req)" st now
      "generate_response lc (req_message req)
         (last_n 3 (prior_window st (conversation_id_of now req) @ [user_msg now req]))
         (analyze sa (req_message req))"]
  by simp_all

lemma detect_end_my_life_short: "detect_crisis (PyStr ''I want to end my life'')"
  by code_simp

lemma no_crisis_hello: "\<not> detect_crisis (PyStr ''hello'')"
  by code_simp

lemma prior_window_empty_store: "prior_window empty_store cid = []"
  by (simp add: prior_window_def window_def empty_store_def)


text \<open>
  Claim C1. On every message that \<open>detect_crisis\<close> flags, \<open>chat\<close> (with the analyzer,
  detector, client and logger of the repository, whatever their services do) returns a
  response with \<open>crisis_detected = True\<close>, the fixed crisis text, which contains "988"
  and "911", and the four crisis resources; and \<open>llm_client.generate_response\<close> is not
  called for that message.
\<close>

theorem crisis_short_circuits_reply:
  assumes "detect_crisis (PyStr (req_message request))"
  shows "fst (chat (main_components sa lc logging) now request st) =
           Inr \<lparr>resp_response = get_crisis_response,
                resp_sentiment = analyze sa (req_message request),
                resp_crisis_detected = True, resp_timestamp = now,
                resp_conversation_id = conversation_id_of now request,
                resp_resources = Some crisis_resources\<rparr>
         \<and> crisis_resources \<noteq> []
         \<and> contains get_crisis_response ''988'' \<and> contains get_crisis_response ''911''
         \<and> generate_calls (snd (chat (main_components sa lc logging) now request st))
             = generate_calls st"
proof -
  have "generate_calls (snd (chat (main_components sa lc logging) now request st)) = generate_calls st"
    using assms chat_window_no_reply(2) [of "main_components sa lc logging" request now st]
    by simp
  then show ?thesis
    using main_chat_crisis_result [OF assms] crisis_response_numbers
    by (simp add: crisis_resources_def)
qed

theorem crisis_short_circuits_reply_witness:
  "detect_crisis (PyStr (req_message (request_on ''crisis_test'' ''I want to end my life'')))
   \<and> fst (chat (main_components no_sentiment_services openai_down True) ''t''
            (request_on ''crisis_test'' ''I want to end my life'') empty_store) =
       Inr \<lparr>resp_response = get_crisis_response,
            resp_sentiment = analyze no_sentiment_services ''I want to end my life'',
            resp_crisis_detected = True, resp_timestamp = ''t'',
            resp_conversation_id = ''crisis_test'',
            resp_resources = Some crisis_resources\<rparr>
   \<and> generate_calls (snd (chat (main_components no_sentiment_services openai_down True) ''t''
            (request_on ''crisis_test'' ''I want to end my life'') empty_store)) = []"
proof -
  have d: "detect_crisis (PyStr (req_message (request_on ''crisis_test'' ''I want to end my life'')))"
    using detect_end_my_life_short by (simp add: request_on_def)
  have i: "conversation_id_of ''t'' (request_on ''crisis_test'' ''I want to end my life'') = ''crisis_test''"
    by (simp add: conversation_id_of_request_on)
  have m: "req_message (request_on ''crisis_test'' ''I want to end my life'') = ''I want to end my life''"
    by (simp add: request_on_def)
  have g: "generate_calls empty_store = []"
    by (simp add: empty_store_def)
  from crisis_short_circuits_reply [OF d, of no_sentiment_services openai_down True "''t''" empty_store]
  show ?thesis using d unfolding i m g by blast
qed

lemma chat_only_raises_500:
  "fst (chat comps now request st) = Inl e \<Longrightarrow> e = internal_server_error"
  by (auto simp: chat_def split: prod.splits sum.splits)

lemma chat_analyze_fault:
  assumes "c_analyze comps (req_message request) = Inl x"
  shows "fst (chat comps now request st) = Inl internal_server_error"
  using assms
  by (cases "chat_history now request st") (simp add: chat_def chat_body_def Let_def)

lemma chat_detect_fault:
  assumes "c_analyze comps (req_message request) = Inr s"
    and "c_detect_crisis comps (req_message request) = Inl x"
  shows "fst (chat comps now request st) = Inl internal_server_error"
  using assms
  by (cases "chat_history now request st") (simp add: chat_def chat_body_def Let_def)

text \<open>
  Claim C9, as amended. \<open>chat\<close> turns every exception raised inside it into
  \<open>HTTPException(500, "Internal server error")\<close>, which it raises to its caller: a
  fault of the sentiment analysis, of the crisis detection or of the reply generation
  gives that error and no fallback result, and no other exception leaves \<open>chat\<close>. With
  the analyzer, detector, client and logger of the repository, which catch their own
  faults, \<open>chat\<close> returns a response for every message.
\<close>

theorem chat_faults_raise_http_500:
  "(fst (chat comps now request st) = Inl e \<longrightarrow> e = HTTPException 500 ''Internal server error'')
   \<and> (c_analyze comps (req_message request) = Inl x \<longrightarrow>
        fst (chat comps now request st) = Inl (HTTPException 500 ''Internal server error''))
   \<and> (c_analyze comps (req_message request) = Inr s
        \<and> c_detect_crisis comps (req_message request) = Inl x \<longrightarrow>
        fst (chat comps now request st) = Inl (HTTPException 500 ''Internal server error''))
   \<and> (c_analyze comps (req_message request) = Inr s
        \<and> c_detect_crisis comps (req_message request) = Inr False
        \<and> c_generate_response comps (req_message request)
             (last_n 3 (prior_window st (conversation_id_of now request) @ [user_msg now request])) s
           = Inl x \<longrightarrow>
        fst (chat comps now request st) = Inl (HTTPException 500 ''Internal server error''))
   \<and> (\<exists>r. fst (chat (main_components sa lc logging) now request st) = Inr r)"
  using chat_only_raises_500 [of comps now request st e]
    chat_analyze_fault [of comps request x now st]
    chat_detect_fault [of comps request s x now st]
    chat_window_generate_fails(2) [of comps request s st now x]
    main_chat_returns [of sa lc logging now request st]
  unfolding internal_server_error_def by blast

theorem chat_faults_raise_http_500_witness:
  "c_analyze mocked_analyzer_components (req_message (request_on ''w'' ''Hello''))
     = Inl (Exception ''Sentiment API failed'')
   \<and> fst (chat mocked_analyzer_components ''t'' (request_on ''w'' ''Hello'') empty_store)
     = Inl (HTTPException 500 ''Internal server error'')"
proof -
  have a: "c_analyze mocked_analyzer_components (req_message (request_on ''w'' ''Hello''))
     = Inl (Exception ''Sentiment API failed'')"
    by (simp add: mocked_analyzer_components_def failing_analyze_def)
  from chat_faults_raise_http_500 [of mocked_analyzer_components "''t''" "request_on ''w'' ''Hello''"
      empty_store _ "Exception ''Sentiment API failed''"] a
  show ?thesis by blast
qed

text \<open>
  Claim C9 as stated fails: when \<open>sentiment_analyzer.analyze\<close> raises (the mock of
  \<open>test_sentiment_analysis_failure\<close>), \<open>chat\<close> raises the HTTP error 500 to its caller
  instead of returning a fallback result.
\<close>

theorem chat_raises_on_analyzer_fault:
  "fst (chat mocked_analyzer_components ''t'' (request_on ''error_test'' ''Test message'') empty_store)
     = Inl (HTTPException 500 ''Internal server error'')"
  by (cases "chat_history ''t'' (request_on ''error_test'' ''Test message'') empty_store")
     (simp add: chat_def chat_body_def Let_def mocked_analyzer_components_def failing_analyze_def
        internal_server_error_def)



lemma req_message_request_on [simp]: "req_message (request_on cid m) = m"
  by (simp add: request_on_def)




section \<open>The size of the window\<close>

lemma after_request_window_length:
  assumes "cid \<noteq> []" and "\<not> detect_crisis (PyStr m)"
  shows "map_option length (window (after_request cid m st) cid) =
           Some (min 6 (Suc (length (prior_window st cid))) + 1)"
    and "length (prior_window (after_request cid m st) cid) =
           min 6 (Suc (length (prior_window st cid))) + 1"
  using assms
    main_chat_reply_window(1) [of "request_on cid m" no_sentiment_services no_llm_clients False
      "''t''" st]
  by (simp_all add: after_request_def conversation_id_of_request_on length_last_n prior_window_def)

text \<open>
  Claim C5, the code at a failing input. Four messages that are not flagged, sent in
  turn on one conversation: the stored window then has 7 entries. The trim to 6 entries
  follows the append of the user's message only; the append of the reply comes after it
  and is not followed by a trim.
\<close>

theorem window_holds_seven_entries:
  "map_option length
     (window (after_request ''c'' ''hello'' (after_request ''c'' ''hello''
                (after_request ''c'' ''hello'' (after_request ''c'' ''hello'' empty_store)))) ''c'')
     = Some 7"
  using no_crisis_hello
  by (simp add: after_request_window_length prior_window_empty_store)

end
